theory Spec2Isabelle
  imports Main "HOL-Library.Sublist"
begin

section \<open>Python strings\<close>

text \<open>
  A Python \<open>str\<close> is a sequence of Unicode code points, so it is modelled as a list of
  natural numbers. \<open>uni\<close> embeds an ASCII literal; the non-ASCII characters of the
  templates are written as their code points (8212 is the em dash, 8776 the
  almost-equal sign, 215 the multiplication sign, 8217 the right single quote).
\<close>

type_synonym pystr = "nat list"

definition uni :: "string \<Rightarrow> pystr" where
  "uni s = map of_char s"

text \<open>
  \<open>str.isspace\<close> per character: the code points CPython's \<open>_PyUnicode_IsWhitespace\<close>
  accepts. \<open>str.strip()\<close> removes them from both ends, \<open>str.strip(chars)\<close> removes the
  characters of \<open>chars\<close> from both ends.
\<close>

definition isspace :: "nat \<Rightarrow> bool" where
  "isspace c = ((9 \<le> c \<and> c \<le> 13) \<or> (28 \<le> c \<and> c \<le> 32) \<or> c = 133 \<or> c = 160 \<or> c = 5760
     \<or> (8192 \<le> c \<and> c \<le> 8202) \<or> c = 8232 \<or> c = 8233 \<or> c = 8239 \<or> c = 8287 \<or> c = 12288)"

definition strip_by :: "(nat \<Rightarrow> bool) \<Rightarrow> pystr \<Rightarrow> pystr" where
  "strip_by P s = rev (dropWhile P (rev (dropWhile P s)))"

definition strip :: "pystr \<Rightarrow> pystr" where
  "strip s = strip_by isspace s"

definition strip_chars :: "pystr \<Rightarrow> pystr \<Rightarrow> pystr" where
  "strip_chars chars s = strip_by (\<lambda>c. c \<in> set chars) s"

text \<open>
  \<open>str.lower()\<close>. Python lowercases by the Unicode tables; the program uses the result
  only in \<open>startswith("decision:")\<close>, and no code point outside \<open>A\<close>..\<open>Z\<close> lowercases to
  one of the keyword's ASCII characters followed by the next one (U+0130 becomes \<open>i\<close> plus
  a combining dot, which the keyword does not continue), so the other code points are
  kept as they are.
\<close>

definition lower :: "pystr \<Rightarrow> pystr" where
  "lower s = map (\<lambda>c. if 65 \<le> c \<and> c \<le> 90 then c + 32 else c) s"

definition startswith :: "pystr \<Rightarrow> pystr \<Rightarrow> bool" where
  "startswith s p = prefix p s"

text \<open>\<open>sep.join(xs)\<close>.\<close>

fun join :: "pystr \<Rightarrow> pystr list \<Rightarrow> pystr" where
  "join sep [] = []"
| "join sep [x] = x"
| "join sep (x # y # ys) = x @ sep @ join sep (y # ys)"

text \<open>
  \<open>str.splitlines()\<close>: a line ends at \<open>\n\<close>, \<open>\r\<close>, \<open>\r\n\<close>, \<open>\v\<close>, \<open>\f\<close>, \<open>\x1c\<close>,
  \<open>\x1d\<close>, \<open>\x1e\<close>, \<open>\x85\<close>, U+2028 or U+2029; the breaks are dropped, and text after the
  last break is a line only when it is not empty.
\<close>

fun splitlines_from :: "pystr \<Rightarrow> pystr \<Rightarrow> pystr list" where
  "splitlines_from cur [] = (if cur = [] then [] else [cur])"
| "splitlines_from cur (c # cs) =
     (if c = 13 then
        (case cs of
           [] \<Rightarrow> [cur]
         | d # ds \<Rightarrow> if d = 10 then cur # splitlines_from [] ds else cur # splitlines_from [] cs)
      else if c \<in> {10, 11, 12, 28, 29, 30, 133, 8232, 8233} then cur # splitlines_from [] cs
      else splitlines_from (cur @ [c]) cs)"

definition splitlines :: "pystr \<Rightarrow> pystr list" where
  "splitlines s = splitlines_from [] s"

text \<open>
  \<open>s.split(sep, 1)\<close> for a one-character separator: the text before and after the
  first separator, or the whole text alone when there is none. \<open>subscript\<close> is list
  indexing, \<open>None\<close> where Python raises \<open>IndexError\<close>.
\<close>

definition split_once :: "nat \<Rightarrow> pystr \<Rightarrow> pystr list" where
  "split_once sep s =
     (if sep \<in> set s then [takeWhile (\<lambda>c. c \<noteq> sep) s, tl (dropWhile (\<lambda>c. c \<noteq> sep) s)]
      else [s])"

definition subscript :: "'a list \<Rightarrow> nat \<Rightarrow> 'a option" where
  "subscript xs i = (if i < length xs then Some (xs ! i) else None)"

text \<open>\<open>xs.index(x)\<close>: the first position holding \<open>x\<close>, \<open>None\<close> where Python raises \<open>ValueError\<close>.\<close>

fun index_of :: "'a list \<Rightarrow> 'a \<Rightarrow> nat option" where
  "index_of [] x = None"
| "index_of (y # ys) x = (if y = x then Some 0 else map_option Suc (index_of ys x))"

text \<open>\<open>op in text\<close> on strings: \<open>op\<close> occurs as a contiguous run of \<open>text\<close>.\<close>

fun contains :: "pystr \<Rightarrow> pystr \<Rightarrow> bool" where
  "contains [] op = (op = [])"
| "contains (c # cs) op = (prefix op (c # cs) \<or> contains cs op)"

section \<open>Values, dictionaries, errors\<close>

text \<open>
  The values a cell of the pictorial row or an entry of the histogram holds: a string,
  an integer or \<open>None\<close> (\<open>csv.DictReader\<close> fills the missing cells of a short row with
  \<open>None\<close>). \<open>truthy\<close> is Python's truth value, \<open>fmt\<close> the text an f-string inserts.
\<close>

datatype pyval = PNone | PStr pystr | PInt int

fun truthy :: "pyval \<Rightarrow> bool" where
  "truthy PNone = False"
| "truthy (PStr s) = (s \<noteq> [])"
| "truthy (PInt i) = (i \<noteq> 0)"

definition py_or :: "pyval \<Rightarrow> pyval \<Rightarrow> pyval" where
  "py_or a b = (if truthy a then a else b)"

fun digits :: "nat \<Rightarrow> pystr" where
  "digits n = (if n < 10 then [48 + n] else digits (n div 10) @ [48 + n mod 10])"

fun fmt :: "pyval \<Rightarrow> pystr" where
  "fmt PNone = uni ''None''"
| "fmt (PStr s) = s"
| "fmt (PInt i) = (if i < 0 then 45 # digits (nat (- i)) else digits (nat i))"

type_synonym pydict = "pystr \<rightharpoonup> pyval"

definition dict_get :: "pydict \<Rightarrow> pystr \<Rightarrow> pyval \<Rightarrow> pyval" where
  "dict_get d k dflt = (case d k of None \<Rightarrow> dflt | Some v \<Rightarrow> v)"

datatype error = FileNotFoundError | JSONDecodeError | IndexError | ValueError

section \<open>Input loaders\<close>

text \<open>
  The sequence document after \<open>json.load\<close>: an object of which the program reads the key
  \<open>operator_histogram\<close>, a list of (operator, count) pairs. The file is \<open>None\<close> when it
  does not exist and \<open>Some None\<close> when it is not JSON.
\<close>

type_synonym seq_data = "pystr \<rightharpoonup> (pyval \<times> pyval) list"

definition load_seq :: "seq_data option option \<Rightarrow> error + seq_data" where
  "load_seq f =
     (case f of
        None \<Rightarrow> Inl FileNotFoundError
      | Some None \<Rightarrow> Inl JSONDecodeError
      | Some (Some d) \<Rightarrow> Inr d)"

text \<open>
  The pictorial document is given as the rows \<open>csv.reader\<close> yields (\<open>[]\<close> for a blank
  line). \<open>csv.DictReader\<close> takes the first row as the field names, skips the empty rows
  after it and turns every other row into a dictionary: \<open>dict(zip(fieldnames, row))\<close>,
  then \<open>None\<close> for the field names a short row leaves without a cell. The surplus cells of
  a long row go under the key \<open>None\<close>, which no string key reads; that entry is left out.
\<close>

definition row_dict :: "pystr list \<Rightarrow> pystr list \<Rightarrow> pydict" where
  "row_dict fieldnames row =
     fold (\<lambda>(k, v) d. d(k \<mapsto> v))
       (zip fieldnames (map PStr row @ replicate (length fieldnames - length row) PNone))
       Map.empty"

definition dict_reader :: "pystr list list \<Rightarrow> pydict list" where
  "dict_reader rows =
     (case rows of
        [] \<Rightarrow> []
      | fieldnames # rest \<Rightarrow> map (row_dict fieldnames) (filter (\<lambda>r. r \<noteq> []) rest))"

definition load_pict :: "pystr list list option \<Rightarrow> error + pydict" where
  "load_pict f =
     (case f of
        None \<Rightarrow> Inl FileNotFoundError
      | Some csv_rows \<Rightarrow>
          (case dict_reader csv_rows of [] \<Rightarrow> Inr Map.empty | r # rs \<Rightarrow> Inr r))"

text \<open>\<open>load_pict(PICT_PATH) if PICT_PATH.exists() else {}\<close>, as \<open>main\<close> loads the row.\<close>

definition load_pict_if_exists :: "pystr list list option \<Rightarrow> error + pydict" where
  "load_pict_if_exists f = (if f \<noteq> None then load_pict f else Inr Map.empty)"

text \<open>
  The decision note is the text \<open>read_text\<close> returns, \<open>None\<close> when the file does not
  exist. The loop over \<open>lines[1:]\<close> appends to \<open>rationale\<close>.
\<close>

definition UNKNOWN :: pystr where
  "UNKNOWN = uni ''UNKNOWN''"

fun rationale_loop :: "pystr list \<Rightarrow> pystr list \<Rightarrow> pystr list" where
  "rationale_loop rationale [] = rationale"
| "rationale_loop rationale (ln # lns) =
     (let ln' = strip (strip_chars (uni ''- '') ln)
      in if ln' \<noteq> [] then rationale_loop (rationale @ [ln']) lns
         else rationale_loop rationale lns)"

definition load_decision :: "pystr option \<Rightarrow> error + (pystr \<times> pystr list)" where
  "load_decision f =
     (case f of
        None \<Rightarrow> Inr (UNKNOWN, [])
      | Some text \<Rightarrow>
          (case splitlines text of
             [] \<Rightarrow> Inr (UNKNOWN, [])
           | l0 # rest \<Rightarrow>
               (let head = strip l0
                in if startswith (lower head) (uni ''decision:'')
                   then (case subscript (split_once 58 head) 1 of
                           None \<Rightarrow> Inl IndexError
                         | Some v \<Rightarrow> Inr (strip v, rationale_loop [] rest))
                   else Inr (UNKNOWN, rationale_loop [] rest))))"

section \<open>Summary extractors\<close>

definition phrase_counts :: "pydict \<Rightarrow> pyval \<times> pyval \<times> pyval \<times> pyval \<times> pyval" where
  "phrase_counts pict =
     (dict_get pict (uni ''roots_count'') (PStr (uni ''?'')),
      py_or (py_or (dict_get pict (uni ''leaf_groups_count'') PNone)
                   (dict_get pict (uni ''leaf_pairs_count'') PNone))
            (PStr (uni ''?'')),
      dict_get pict (uni ''bud_count'') (PStr (uni ''?'')),
      dict_get pict (uni ''bud_state'') (PStr (uni ''?'')),
      dict_get pict (uni ''bud_colour'') (PStr (uni ''?'')))"

definition top_ops_hist :: "seq_data \<Rightarrow> nat \<Rightarrow> pystr list" where
  "top_ops_hist seq_data k =
     (let hist = (case seq_data (uni ''operator_histogram'') of None \<Rightarrow> [] | Some h \<Rightarrow> h)
      in map (\<lambda>(op, ct). fmt op @ [215] @ fmt ct) (take k hist))"

section \<open>Frame assemblers\<close>

definition DUAL_READING :: pystr where
  "DUAL_READING = uni ''Dual Reading:''"

definition SPIRITUAL_PARALLEL :: pystr where
  "SPIRITUAL_PARALLEL = uni ''Spiritual Parallel:''"

text \<open>The list \<open>make_12key\<close> passes to \<open>t.extend\<close>. Adjacent string literals with no comma between them are one string, so the first entry is the Step 1 title alone.\<close>

definition body_12key :: "pystr list" where
  "body_12key =
    [uni ''Step 1 '' @ [8212] @ uni '' Vessel & Naming'',
     uni ''Dual Reading:'',
     uni ''The vessel is both the physical flask and the soul'' @ [8217] @ uni ''s container. Invocation awakens both the material and the self to the alchemical journey.'',
     [],
     uni ''The division marks not only chemical partition but the mystical separation of ego and essence.'',
     [],
     uni ''Dissolution serves to cleanse material and purify the inner self through surrender.'',
     [],
     uni ''Distillation echoes the ascent of spirit; impurities fall away in both lab and life.'',
     [],
     uni ''Conjunction reflects union: Sulphur and Mercury, masculine and feminine, body and soul.'',
     [],
     uni ''Nigredo symbolizes the dark night of the soul; the blackening before rebirth.'',
     [],
     uni ''Albedo washes the psyche clean; Luna'' @ [8217] @ uni ''s light reveals the purified spirit.'',
     [],
     uni ''Citrinitas is the dawning awareness; Mars forges willpower in transformation.'',
     [],
     uni ''Rubedo completes the cycle: the alchemist becomes the Stone.'',
     [],
     uni ''Planetary forces don'' @ [8217] @ uni ''t just guide reactions'' @ [8212] @ uni ''they govern stages of inner development.'',
     [],
     uni ''Circulation mirrors breath, prayer, and meditation: the Work is not linear.'',
     [],
     uni ''The seal closes not only a flask, but also a rite. Completion blesses both craft and soul.'',
     uni ''The matter is named and bound in its vessel. The root marks the body (Salt), fixed under Saturn'' @ [8217] @ uni ''s weight. Invocation is repeated in glyphs (e.g., daiin) and leaf pairing, sealing the beginning of the work.'',
     [],
     uni ''Step 2 '' @ [8212] @ uni '' Division'',
     uni ''The one is divided into twain and thrice: leaf pairs show duality, triplets imply the tria prima. Repetitions (daiin/aiin) and fixatives (chedy) portion the matter.'',
     [],
     uni ''Step 3 '' @ [8212] @ uni '' Dissolution'',
     uni ''Stems and loops mark circulation and washing. Tokens like shol/chor indicate solve in water; the matter is softened and set apart.'',
     [],
     uni ''Step 4 '' @ [8212] @ uni '' Distillation'',
     uni ''Droplet-like signs and repeated shody/qokedy patterns suggest distillation. Vapour rises and returns as dew; the subtle is separated from the gross.'',
     [],
     uni ''Step 5 '' @ [8212] @ uni '' Conjunction'',
     uni ''Two buds appear, closed then opening: Sulphur unites with Mercury. Conjunction signs (cfhol) and daiin repetitions confirm the aim.'',
     [],
     uni ''Step 6 '' @ [8212] @ uni '' Black Phase (Nigredo)'',
     uni ''Darkness of the root signals nigredo. The body putrefies; successive shody seals fix the stage.'',
     [],
     uni ''Step 7 '' @ [8212] @ uni '' White Phase (Albedo)'',
     uni ''Leaves pale; east'' @ [8211] @ uni ''west orientation encodes invocation and washing. Luna presides; the spirit clarifies.'',
     [],
     uni ''Step 8 '' @ [8212] @ uni '' Yellow Phase (Citrinitas)'',
     uni ''Intermediate yellowing under Mars'' @ [8217] @ uni ''s heat prepares perfection. Iterative forms (chedy, cthar) track cycles.'',
     [],
     uni ''Step 9 '' @ [8212] @ uni '' Red Phase (Rubedo)'',
     uni ''The two red buds are the clearest cipher: open and red = Rubedo, the crown of the Work. Sol governs completion.'',
     [],
     uni ''Step 10 '' @ [8212] @ uni '' Planetary Governance'',
     uni ''Saturn delays, Mars heats, Luna moistens, Sol perfects; leaf direction hints Air and Water. Planetary order binds the phases.'',
     [],
     uni ''Step 11 '' @ [8212] @ uni '' Circulation & Return'',
     uni ''Cycles of daiin, shol, chor command: solve '' @ [8594] @ uni '' coagula '' @ [8594] @ uni '' fix. Vapours rise and fall; leaf pairs confirm counts (2, 3, 7).'',
     [],
     uni ''Step 12 '' @ [8212] @ uni '' Seal & Completion'',
     uni ''Final y-terminations act as seals. With buds now red/open, the final conjunction is declared: the Work is closed and fixed.'']"

text \<open>The list \<open>make_7step\<close> passes to \<open>t.extend\<close>.\<close>

definition body_7step :: "pystr list" where
  "body_7step =
    [uni ''1) Name & Bind '' @ [8212] @ uni '' Identify the matter, bind in the vessel, open the cycle with invocations (daiin).'',
     uni ''Spiritual Parallel:'',
     uni ''1) The name calls the soul to action; the vessel holds intent.'',
     uni ''2) Separation defines inner conflict; parts must know themselves.'',
     uni ''3) Washing purifies ego; flow liberates spirit.'',
     uni ''4) Distilling refines insight; vapor rises, truth condenses.'',
     uni ''5) Union heals duality; opposites embrace.'',
     uni ''6) Fixing grounds the Self; realization stabilizes the soul.'',
     uni ''7) Rubedo crowns the seeker; the Work completes with wisdom.'',
     uni ''2) Divide & Portion '' @ [8212] @ uni '' Split into halves/thirds; assign portions; chedy marks fixation points.'',
     uni ''3) Solve '' @ [8212] @ uni '' Wash/circulate (shol/chor); soften and separate.'',
     uni ''4) Distil '' @ [8212] @ uni '' Raise and return the subtle (shody/qokedy); condense as dew.'',
     uni ''5) Conjoin '' @ [8212] @ uni '' Recombine fractions (cfhol) under measured heat.'',
     uni ''6) Fix '' @ [8212] @ uni '' Seal interim results (y endings), weigh against root heaviness (Saturn).'',
     uni ''7) Perfect '' @ [8212] @ uni '' Advance through colours to red; crown under Sol; close with a final seal.'']"

definition make_12key :: "seq_data \<Rightarrow> pydict \<Rightarrow> pystr \<Rightarrow> pystr list \<Rightarrow> pystr list" where
  "make_12key seq_data pict decision rationale =
     (case phrase_counts pict of
        (roots, leaves, buds, bud_state, bud_color) \<Rightarrow>
          (let ops = join (uni '', '') (top_ops_hist seq_data 6)
           in [uni ''Translation of f1r '' @ [8212] @ uni '' Twelve Keys (Allegorical)'',
               [8212],
               uni ''Snapshot: roots='' @ fmt roots @ uni '', leaves'' @ [8776] @ fmt leaves
                 @ uni '', buds='' @ fmt buds @ uni '' ('' @ fmt bud_state @ uni ''/''
                 @ fmt bud_color @ uni ''); frequent ops: '' @ ops]
              @ (if rationale \<noteq> []
                 then [uni ''Decision rationale: '' @ join (uni ''; '') rationale] else [])
              @ [[]]
              @ body_12key))"

definition make_7step :: "seq_data \<Rightarrow> pydict \<Rightarrow> pystr \<Rightarrow> pystr list \<Rightarrow> pystr list" where
  "make_7step seq_data pict decision rationale =
     (case phrase_counts pict of
        (roots, leaves, buds, bud_state, bud_color) \<Rightarrow>
          (let ops = join (uni '', '') (top_ops_hist seq_data 6)
           in [uni ''Translation of f1r '' @ [8212] @ uni '' Seven-Step Operator Cycle'',
               [8212],
               uni ''Snapshot: roots='' @ fmt roots @ uni '', leaves'' @ [8776] @ fmt leaves
                 @ uni '', buds='' @ fmt buds @ uni '' ('' @ fmt bud_state @ uni ''/''
                 @ fmt bud_color @ uni ''); frequent ops: '' @ ops]
              @ (if rationale \<noteq> []
                 then [uni ''Decision rationale: '' @ join (uni ''; '') rationale] else [])
              @ [[]]
              @ body_7step))"

section \<open>Layer splitter and merger\<close>

text \<open>
  \<open>main\<close> splits and merges each frame with the same statements, once for the long and
  once for the short frame: \<open>d = txt.index(marker)\<close>, the layers \<open>txt[:d]\<close> and
  \<open>txt[d+1:]\<close>, and the loop over \<open>zip\<close> of the two layers that appends to \<open>merged\<close>.
\<close>

definition split_layers :: "pystr list \<Rightarrow> pystr \<Rightarrow> error + (pystr list \<times> pystr list)" where
  "split_layers txt marker =
     (case index_of txt marker of
        None \<Rightarrow> Inl ValueError
      | Some d \<Rightarrow> Inr (take d txt, drop (d + 1) txt))"

fun merge_loop :: "pystr list \<Rightarrow> (pystr \<times> pystr) list \<Rightarrow> pystr list" where
  "merge_loop merged [] = merged"
| "merge_loop merged ((op, sp) # ps) =
     (if strip op \<noteq> [] \<and> strip sp \<noteq> []
      then merge_loop (merged @ [strip op @ uni '' / '' @ strip sp]) ps
      else if strip op \<noteq> [] then merge_loop (merged @ [strip op]) ps
      else merge_loop merged ps)"

definition merge_layers :: "pystr list \<Rightarrow> pystr list \<Rightarrow> pystr list" where
  "merge_layers lab spir = merge_loop [] (zip lab spir)"

section \<open>Orchestrator\<close>

text \<open>
  The world of a run: the three input documents and the ten output files (\<open>None\<close> for a
  file that does not exist). The input and output paths are different constants of the
  program, so a write never changes an input. \<open>write_text\<close> replaces the whole file.
\<close>

datatype out_path =
  OUT_12 | OUT_7
  | OUT_12_LAB | OUT_12_SPIR | OUT_12_MERGE | OUT_12_TRANSL
  | OUT_7_LAB | OUT_7_SPIR | OUT_7_MERGE | OUT_7_TRANSL

record world =
  seq_file :: "seq_data option option"
  pict_file :: "pystr list list option"
  dec_file :: "pystr option"
  out_files :: "out_path \<Rightarrow> pystr option"

definition write_text :: "out_path \<Rightarrow> pystr \<Rightarrow> world \<Rightarrow> world" where
  "write_text p s w = w\<lparr>out_files := (out_files w)(p \<mapsto> s)\<rparr>"

definition NL :: pystr where
  "NL = [10]"

text \<open>
  The four writes of one frame after its two full-text files: the index of the marker
  (a \<open>ValueError\<close> ends the run there, with what was written before), the two layers
  stripped as whole texts, the merged lines and the copy of the full text.
\<close>

definition write_layers ::
  "out_path \<Rightarrow> out_path \<Rightarrow> out_path \<Rightarrow> out_path \<Rightarrow> pystr list \<Rightarrow> pystr \<Rightarrow> world
     \<Rightarrow> world \<times> error option" where
  "write_layers lab_path spir_path merge_path transl_path txt marker w =
     (case split_layers txt marker of
        Inl e \<Rightarrow> (w, Some e)
      | Inr (lab, spir) \<Rightarrow>
          (let w1 = write_text lab_path (strip (join NL lab) @ NL) w;
               w2 = write_text spir_path (strip (join NL spir) @ NL) w1;
               w3 = write_text merge_path (join NL (merge_layers lab spir) @ NL) w2;
               w4 = write_text transl_path (join NL txt @ NL) w3
           in (w4, None)))"

text \<open>
  The arguments of the call that renders the short frame: the note's own decision and
  rationale when the decision is the sentinel, the comparative label and no rationale
  otherwise.
\<close>

definition SENTINEL :: pystr where
  "SENTINEL = uni ''7_STEPS_OPERATOR''"

definition COMPARATIVE :: pystr where
  "COMPARATIVE = uni ''7_STEPS_OPERATOR (comparative)''"

definition short_frame_args :: "pystr \<Rightarrow> pystr list \<Rightarrow> pystr \<times> pystr list" where
  "short_frame_args decision rationale =
     (if decision = SENTINEL then (decision, rationale) else (COMPARATIVE, []))"

definition main :: "world \<Rightarrow> world \<times> error option" where
  "main w =
     (case load_seq (seq_file w) of
        Inl e \<Rightarrow> (w, Some e)
      | Inr seq \<Rightarrow>
     (case load_pict_if_exists (pict_file w) of
        Inl e \<Rightarrow> (w, Some e)
      | Inr pict \<Rightarrow>
     (case load_decision (dec_file w) of
        Inl e \<Rightarrow> (w, Some e)
      | Inr (decision, rationale) \<Rightarrow>
          (let txt12 = make_12key seq pict decision rationale;
               w1 = write_text OUT_12 (join NL txt12 @ NL) w;
               txt7 = (case short_frame_args decision rationale of
                         (d, r) \<Rightarrow> make_7step seq pict d r);
               w2 = write_text OUT_7 (join NL txt7 @ NL) w1
           in (case write_layers OUT_12_LAB OUT_12_SPIR OUT_12_MERGE OUT_12_TRANSL
                       txt12 DUAL_READING w2 of
                 (w3, Some e) \<Rightarrow> (w3, Some e)
               | (w3, None) \<Rightarrow>
                   write_layers OUT_7_LAB OUT_7_SPIR OUT_7_MERGE OUT_7_TRANSL
                     txt7 SPIRITUAL_PARALLEL w3)))))"

section \<open>The collaborator's operator scan\<close>

text \<open>
  \<open>OPS\<close> of \<open>pattern_recog.py\<close>: C and S with circumflex (U+0108, U+015C), B and R each
  followed by the combining circumflex U+0302, and eight ASCII letters. \<open>analyze\<close>
  returns, under \<open>operators_detected\<close>, the list comprehension
  \<open>[op for op in OPS if op in text]\<close>.
\<close>

definition OPS :: "pystr list" where
  "OPS = [[264], [348], uni ''B'' @ [770], uni ''R'' @ [770], uni ''E'', uni ''F'', uni ''T'',
          uni ''H'', uni ''D'', uni ''M'', uni ''X'', uni ''N'']"

definition operators_detected :: "pystr \<Rightarrow> pystr list" where
  "operators_detected text = filter (\<lambda>op. contains text op) OPS"

section \<open>Lists, strings and loops: auxiliary facts\<close>

lemma index_of_None_iff: "index_of xs x = None \<longleftrightarrow> x \<notin> set xs"
  by (induction xs) auto

lemma index_of_SomeD:
  "index_of xs x = Some i \<Longrightarrow> i < length xs \<and> xs ! i = x \<and> x \<notin> set (take i xs)"
proof (induction xs arbitrary: i)
  case Nil
  then show ?case by simp
next
  case (Cons y ys)
  show ?case
  proof (cases "y = x")
    case True
    with Cons.prems show ?thesis by simp
  next
    case False
    with Cons.prems obtain j where j: "index_of ys x = Some j" "i = Suc j"
      by auto
    from Cons.IH [OF j(1)] j(2) False show ?thesis by simp
  qed
qed

lemma split_layers_decomp:
  assumes "marker \<in> set frame"
  shows "\<exists>lab spir. split_layers frame marker = Inr (lab, spir) \<and> frame = lab @ marker # spir
           \<and> marker \<notin> set lab"
proof -
  from assms obtain d where d: "index_of frame marker = Some d"
    using index_of_None_iff [of frame marker] by (cases "index_of frame marker") auto
  from index_of_SomeD [OF d] have lt: "d < length frame" and nth: "frame ! d = marker"
    and before: "marker \<notin> set (take d frame)" by simp_all
  have "frame = take d frame @ marker # drop (d + 1) frame"
    using lt nth id_take_nth_drop [of d frame] by simp
  with d before show ?thesis by (simp add: split_layers_def)
qed

lemma count_list_zero_iff: "count_list xs x = 0 \<longleftrightarrow> x \<notin> set xs"
  by (induction xs) auto

lemma count_body_12key: "count_list body_12key DUAL_READING = 1"
  by (simp add: body_12key_def DUAL_READING_def uni_def)

lemma count_body_7step: "count_list body_7step SPIRITUAL_PARALLEL = 1"
  by (simp add: body_7step_def SPIRITUAL_PARALLEL_def uni_def)

lemma count_make_12key: "count_list (make_12key seq pict decision rationale) DUAL_READING = 1"
  using count_body_12key
  by (simp add: make_12key_def DUAL_READING_def uni_def split: prod.splits)

lemma count_make_7step:
  "count_list (make_7step seq pict decision rationale) SPIRITUAL_PARALLEL = 1"
  using count_body_7step
  by (simp add: make_7step_def SPIRITUAL_PARALLEL_def uni_def split: prod.splits)

lemma merge_loop_acc:
  "merge_loop merged ps = merged @ concat (map (\<lambda>(op, sp).
      if strip op \<noteq> [] \<and> strip sp \<noteq> [] then [strip op @ uni '' / '' @ strip sp]
      else if strip op \<noteq> [] then [strip op] else []) ps)"
  by (induction merged ps rule: merge_loop.induct) simp_all

lemma zip_as_index_map:
  "zip xs ys = map (\<lambda>i. (xs ! i, ys ! i)) [0..<min (length xs) (length ys)]"
  by (rule nth_equalityI) simp_all

lemma strip_by_hd: "strip_by P s \<noteq> [] \<Longrightarrow> \<not> P (hd (strip_by P s))"
proof -
  assume ne: "strip_by P s \<noteq> []"
  let ?d = "dropWhile P s"
  have dne: "?d \<noteq> []" using ne by (cases "dropWhile P s") (simp_all add: strip_by_def)
  then have h: "\<not> P (hd ?d)" by (rule hd_dropWhile)
  obtain y ys where d: "?d = y # ys" using dne by (cases ?d) auto
  with h have ny: "\<not> P y" by simp
  have "dropWhile P (rev ys @ [y]) = dropWhile P (rev ys) @ [y] \<or> dropWhile P (rev ys @ [y]) = [y]"
    using ny by (simp add: dropWhile_append)
  then have "hd (rev (dropWhile P (rev ?d))) = y"
    unfolding d by (auto simp: hd_append)
  then show ?thesis using ny by (simp add: strip_by_def)
qed

lemma strip_by_append_nonblank:
  assumes "x \<noteq> []" "\<not> P (hd x)"
  shows "strip_by P (x @ y) \<noteq> []"
proof -
  from assms obtain c cs where x: "x = c # cs" by (cases x) auto
  with assms have "dropWhile P (x @ y) = x @ y" by simp
  then have "strip_by P (x @ y) = rev (dropWhile P (rev (x @ y)))" by (simp add: strip_by_def)
  moreover have "\<exists>z\<in>set (rev (x @ y)). \<not> P z" using assms x by auto
  then have "dropWhile P (rev (x @ y)) \<noteq> []" by (simp add: dropWhile_eq_Nil_conv)
  ultimately show ?thesis by simp
qed

lemma rationale_loop_acc:
  "rationale_loop acc lns =
     acc @ filter (\<lambda>ln. ln \<noteq> []) (map (\<lambda>ln. strip (strip_chars (uni ''- '') ln)) lns)"
  by (induction acc lns rule: rationale_loop.induct) (simp_all add: Let_def)

lemma merged_line_nonblank:
  "line \<in> set (merge_layers lab spir) \<Longrightarrow> strip line \<noteq> []"
proof -
  assume "line \<in> set (merge_layers lab spir)"
  then obtain op sp where "(op, sp) \<in> set (zip lab spir)" and
    l: "line \<in> set (if strip op \<noteq> [] \<and> strip sp \<noteq> [] then [strip op @ uni '' / '' @ strip sp]
      else if strip op \<noteq> [] then [strip op] else [])"
    by (auto simp: merge_layers_def merge_loop_acc)
  then have ne: "strip op \<noteq> []" and line: "line = strip op @ (if strip sp \<noteq> [] then uni '' / '' @ strip sp else [])"
    by (auto split: if_splits)
  from strip_by_hd [of isspace op] ne have "\<not> isspace (hd (strip op))" by (simp add: strip_def)
  with ne show ?thesis unfolding line strip_def
    by (intro strip_by_append_nonblank) (simp_all add: strip_def)
qed

lemma merge_layers_positional: "merge_layers lab spir =
     concat (map (\<lambda>i. if strip (lab ! i) \<noteq> [] \<and> strip (spir ! i) \<noteq> []
                       then [strip (lab ! i) @ uni '' / '' @ strip (spir ! i)]
                       else if strip (lab ! i) \<noteq> [] then [strip (lab ! i)] else [])
               [0..<min (length lab) (length spir)])"
proof -
  have "merge_layers lab spir = concat (map (\<lambda>(op, sp).
      if strip op \<noteq> [] \<and> strip sp \<noteq> [] then [strip op @ uni '' / '' @ strip sp]
      else if strip op \<noteq> [] then [strip op] else []) (zip lab spir))"
    unfolding merge_layers_def merge_loop_acc by simp
  also have "zip lab spir = map (\<lambda>i. (lab ! i, spir ! i)) [0..<min (length lab) (length spir)]"
    by (rule zip_as_index_map)
  finally show ?thesis by (simp only: map_map comp_def prod.case)
qed

lemma keyword_split:
  assumes "startswith (lower head) (uni ''decision:'')"
  shows "split_once 58 head = [take 8 head, drop 9 head]"
proof -
  from assms obtain zs where "map (\<lambda>c. if 65 \<le> c \<and> c \<le> 90 then c + 32 else c) head
      = [100, 101, 99, 105, 115, 105, 111, 110, 58] @ zs"
    by (auto simp: startswith_def lower_def uni_def prefix_def)
  then obtain c0 c1 c2 c3 c4 c5 c6 c7 c8 rest where
    head: "head = c0 # c1 # c2 # c3 # c4 # c5 # c6 # c7 # c8 # rest" and
    cs: "(if 65 \<le> c0 \<and> c0 \<le> 90 then c0 + 32 else c0) = 100"
        "(if 65 \<le> c1 \<and> c1 \<le> 90 then c1 + 32 else c1) = 101"
        "(if 65 \<le> c2 \<and> c2 \<le> 90 then c2 + 32 else c2) = 99"
        "(if 65 \<le> c3 \<and> c3 \<le> 90 then c3 + 32 else c3) = 105"
        "(if 65 \<le> c4 \<and> c4 \<le> 90 then c4 + 32 else c4) = 115"
        "(if 65 \<le> c5 \<and> c5 \<le> 90 then c5 + 32 else c5) = 105"
        "(if 65 \<le> c6 \<and> c6 \<le> 90 then c6 + 32 else c6) = 111"
        "(if 65 \<le> c7 \<and> c7 \<le> 90 then c7 + 32 else c7) = 110"
        "(if 65 \<le> c8 \<and> c8 \<le> 90 then c8 + 32 else c8) = 58"
    by (auto simp: map_eq_Cons_conv)
  have "c0 \<noteq> 58" "c1 \<noteq> 58" "c2 \<noteq> 58" "c3 \<noteq> 58" "c4 \<noteq> 58" "c5 \<noteq> 58" "c6 \<noteq> 58" "c7 \<noteq> 58"
    using cs by (auto split: if_splits)
  moreover have "c8 = 58" using cs(9) by (auto split: if_splits)
  ultimately show ?thesis by (simp add: split_once_def head)
qed

lemma decision_of_head:
  assumes "startswith (lower head) (uni ''decision:'')"
  shows "subscript (split_once 58 head) 1 = Some (drop 9 head)"
  unfolding keyword_split [OF assms] by (simp add: subscript_def)

lemma load_decision_total:
  "load_decision f =
     Inr (case f of
            None \<Rightarrow> (UNKNOWN, [])
          | Some text \<Rightarrow>
              (case splitlines text of
                 [] \<Rightarrow> (UNKNOWN, [])
               | l0 # rest \<Rightarrow>
                   (if startswith (lower (strip l0)) (uni ''decision:'')
                    then strip (drop 9 (strip l0)) else UNKNOWN,
                    filter (\<lambda>ln. ln \<noteq> [])
                      (map (\<lambda>ln. strip (strip_chars (uni ''- '') ln)) rest))))"
proof (cases f)
  case None
  then show ?thesis by (simp add: load_decision_def)
next
  case (Some body)
  show ?thesis
  proof (cases "splitlines body")
    case Nil
    with Some show ?thesis by (simp add: load_decision_def)
  next
    case (Cons l0 rest)
    have r: "rationale_loop [] rest = filter (\<lambda>ln. ln \<noteq> [])
        (map (\<lambda>ln. strip (strip_chars (uni ''- '') ln)) rest)"
      by (simp add: rationale_loop_acc)
    show ?thesis
    proof (cases "startswith (lower (strip l0)) (uni ''decision:'')")
      case True
      with Some Cons r decision_of_head [OF True] show ?thesis
        by (simp add: load_decision_def Let_def)
    next
      case False
      with Some Cons r show ?thesis by (simp add: load_decision_def Let_def)
    qed
  qed
qed

lemma contains_iff_sublist: "contains s op \<longleftrightarrow> sublist op s"
  by (induction s) (auto simp: sublist_Cons_right)

lemma distinct_OPS: "distinct OPS"
  by (simp add: OPS_def uni_def)

section \<open>The claims\<close>

text \<open>
  C1 (as amended). For every position below the shorter layer's length: when head and
  tail line are both non-blank after trimming, the merged output holds the two trimmed
  lines joined by \<open>" / "\<close>; when only the head line is non-blank, it holds the trimmed
  head line alone; when the head line is blank it holds nothing for that position,
  whatever the tail line is. No merged line is blank.
\<close>

theorem merge_layers_pairs:
  "merge_layers lab spir =
     concat (map (\<lambda>i. if strip (lab ! i) \<noteq> [] \<and> strip (spir ! i) \<noteq> []
                       then [strip (lab ! i) @ uni '' / '' @ strip (spir ! i)]
                       else if strip (lab ! i) \<noteq> [] then [strip (lab ! i)] else [])
               [0..<min (length lab) (length spir)])
   \<and> (\<forall>line \<in> set (merge_layers lab spir). strip line \<noteq> [])"
proof
  show "merge_layers lab spir =
     concat (map (\<lambda>i. if strip (lab ! i) \<noteq> [] \<and> strip (spir ! i) \<noteq> []
                       then [strip (lab ! i) @ uni '' / '' @ strip (spir ! i)]
                       else if strip (lab ! i) \<noteq> [] then [strip (lab ! i)] else [])
               [0..<min (length lab) (length spir)])"
    by (rule merge_layers_positional)
  show "\<forall>line \<in> set (merge_layers lab spir). strip line \<noteq> []"
    using merged_line_nonblank by blast
qed

theorem merge_layers_pairs_witness:
  "merge_layers [uni ''a'', [], uni '' b ''] [uni ''x'', uni ''y'', []]
     = [uni ''a / x'', uni ''b'']"
  using merge_layers_pairs [of "[uni ''a'', [], uni '' b '']" "[uni ''x'', uni ''y'', []]"]
  by (simp add: strip_def strip_by_def uni_def isspace_def upt_rec)

text \<open>
  C1 as stated fails: a blank head line paired with a non-blank tail line leaves no
  merged line, and a head line kept alone is trimmed, not unchanged.
\<close>

theorem merge_layers_tail_only_counterexample:
  "merge_layers [[]] [uni ''x''] = [] \<and> strip (uni ''x'') = uni ''x''
   \<and> merge_layers [uni '' a''] [[]] = [uni ''a'']"
  by (simp add: merge_layers_def strip_def strip_by_def uni_def isspace_def)

text \<open>
  C3. A frame that holds its marker line exactly once splits at the marker into the
  lines before it and the lines after it; the marker is in neither layer, and the two
  layers and the marker line account for every line of the frame.
\<close>

theorem split_layers_at_marker:
  assumes "count_list frame marker = 1"
  shows "\<exists>lab spir. split_layers frame marker = Inr (lab, spir)
           \<and> frame = lab @ marker # spir
           \<and> marker \<notin> set lab \<and> marker \<notin> set spir
           \<and> length lab + 1 + length spir = length frame"
proof -
  from assms have "marker \<in> set frame"
    using count_list_zero_iff [of frame marker] by auto
  from split_layers_decomp [OF this] obtain lab spir
    where s: "split_layers frame marker = Inr (lab, spir)"
      and t: "frame = lab @ marker # spir"
      and l: "marker \<notin> set lab" by blast
  from l have "count_list lab marker = 0" by (simp add: count_list_zero_iff)
  with assms t have "count_list spir marker = 0" by simp
  then have "marker \<notin> set spir" by (simp add: count_list_zero_iff)
  moreover from t have "length lab + 1 + length spir = length frame" by simp
  ultimately show ?thesis using s t l by blast
qed

theorem split_layers_at_marker_witness:
  "split_layers [uni ''a'', uni ''m'', uni ''b'', uni ''c''] (uni ''m'')
     = Inr ([uni ''a''], [uni ''b'', uni ''c''])"
  using split_layers_at_marker [of "[uni ''a'', uni ''m'', uni ''b'', uni ''c'']" "uni ''m''"]
  by (simp add: uni_def split_layers_def)

text \<open>
  C4. Whatever the sequence document, the pictorial row, the decision and the rationale
  are, the long frame holds the line \<open>Dual Reading:\<close> exactly once and the short frame
  the line \<open>Spiritual Parallel:\<close> exactly once. The one occurrence is the one of the
  fixed body, so the title, snapshot and rationale lines are never the marker.
\<close>

theorem frames_hold_marker_once:
  "count_list (make_12key seq pict decision rationale) DUAL_READING = 1
   \<and> count_list (make_7step seq pict decision rationale) SPIRITUAL_PARALLEL = 1
   \<and> count_list body_12key DUAL_READING = 1
   \<and> count_list body_7step SPIRITUAL_PARALLEL = 1
   \<and> DUAL_READING = uni ''Dual Reading:''
   \<and> SPIRITUAL_PARALLEL = uni ''Spiritual Parallel:''"
  using count_make_12key [of seq pict decision rationale]
    count_make_7step [of seq pict decision rationale] count_body_12key count_body_7step
  by (simp add: DUAL_READING_def SPIRITUAL_PARALLEL_def)

text \<open>
  C8. For a decision note that does not exist \<open>load_decision\<close> returns the pair of
  \<open>UNKNOWN\<close> and the empty rationale, as a value and not as an error.
\<close>

theorem load_decision_missing_note:
  "load_decision None = Inr (UNKNOWN, []) \<and> UNKNOWN = uni ''UNKNOWN''"
  by (simp add: load_decision_def UNKNOWN_def)

text \<open>
  C10. \<open>operators_detected\<close> is the list \<open>OPS\<close> restricted to the symbols that occur in
  the text as a contiguous run: the symbols come in the order of \<open>OPS\<close>, each at most
  once.
\<close>

theorem operators_detected_in_OPS_order:
  "operators_detected s = filter (\<lambda>op. \<exists>pre suf. s = pre @ op @ suf) OPS
   \<and> distinct (operators_detected s)
   \<and> subseq (operators_detected s) OPS"
  using distinct_OPS
  by (simp add: operators_detected_def contains_iff_sublist sublist_def)

end
